theory Spec2Isabelle
  imports Complex_Main "HOL-Library.Sublist"
begin

section \<open>The Wi-Fi credential encoder (\<open>generate_wifi_qr\<close>)\<close>

text \<open>
  The f-string of \<open>generate_wifi_qr\<close>: its four holes are filled with the arguments as they
  are, and \<open>hidden\<close> is rendered as the words \<open>true\<close> and \<open>false\<close>.
\<close>

definition wifi_string :: "string \<Rightarrow> string \<Rightarrow> string \<Rightarrow> bool \<Rightarrow> string" where
  "wifi_string ssid authentication password hidden =
     ''WIFI:T:'' @ authentication @ '';S:'' @ ssid @ '';P:'' @ password @ '';H:''
       @ (if hidden then ''true'' else ''false'') @ '';;''"

text \<open>
  The image is made by the barcode library from the one payload given to \<open>add_data\<close>
  with fixed settings; an image is represented by that payload.
\<close>

datatype qr_image = QRCode (qr_data: string)

definition generate_wifi_qr :: "string \<Rightarrow> string \<Rightarrow> string \<Rightarrow> bool \<Rightarrow> qr_image" where
  "generate_wifi_qr ssid authentication password hidden =
     QRCode (wifi_string ssid authentication password hidden)"

section \<open>The identifier validator (\<open>uuid.UUID(hex=...)\<close> of the standard library)\<close>

text \<open>
  The page calls \<open>uuid.UUID(hex=device_UUID)\<close> and \<open>str\<close> of the result. The constructor
  removes \<open>urn:\<close> and \<open>uuid:\<close>, strips braces at both ends, removes dashes, wants 32
  characters left and reads them with \<open>int(hex, 16)\<close>; \<open>str\<close> prints 32 lower-case
  hexadecimal digits in groups of 8-4-4-4-12. A character stands for its code point, so
  the strings are those of code points below 256.
\<close>

datatype error = ValueError | KeyError | ReError | StreamlitAPIException | IllTyped

function str_remove :: "string \<Rightarrow> string \<Rightarrow> string" where
  "str_remove old s =
     (if s = [] \<or> old = [] then s
      else if take (length old) s = old then str_remove old (drop (length old) s)
      else hd s # str_remove old (tl s))"
  by pat_completeness auto
termination
  by (relation "measure (\<lambda>(old, s). length s)") auto

declare str_remove.simps [simp del]

definition str_strip :: "char set \<Rightarrow> string \<Rightarrow> string" where
  "str_strip cs s = rev (dropWhile (\<lambda>c. c \<in> cs) (rev (dropWhile (\<lambda>c. c \<in> cs) s)))"

text \<open>
  \<open>int\<close> on a string: a string that is not ASCII is first rewritten, its characters
  from 127 on becoming a blank when they are Unicode white space (below 256 these are
  133 and 160) and a question mark otherwise, since no other decimal digit lies below
  256; an ASCII string is taken as it is. The blanks skipped at both ends are then the
  ASCII ones, 9 to 13 and 32.
\<close>

definition to_ascii :: "string \<Rightarrow> string" where
  "to_ascii s =
     (if list_all (\<lambda>c. (of_char c :: int) < 128) s then s
      else map (\<lambda>c. let n = (of_char c :: int)
                     in if n < 127 then c
                        else if n = 133 \<or> n = 160 then CHR '' '' else CHR ''?'') s)"

definition is_space :: "char \<Rightarrow> bool" where
  "is_space c = (let n = (of_char c :: int) in (9 \<le> n \<and> n \<le> 13) \<or> n = 32)"

definition hex_digit_value :: "char \<Rightarrow> int option" where
  "hex_digit_value c =
     (let n = (of_char c :: int) in
      if 48 \<le> n \<and> n \<le> 57 then Some (n - 48)
      else if 97 \<le> n \<and> n \<le> 102 then Some (n - 87)
      else if 65 \<le> n \<and> n \<le> 70 then Some (n - 55)
      else None)"

text \<open>
  The digits of \<open>int(s, 16)\<close>: hexadecimal digits, with single underscores allowed between
  two digits. \<open>after_digit\<close> says that the character before was a digit.
\<close>

fun hex_digits :: "int \<Rightarrow> bool \<Rightarrow> string \<Rightarrow> int option" where
  "hex_digits acc after_digit [] = (if after_digit then Some acc else None)"
| "hex_digits acc after_digit (c # cs) =
     (if c = CHR ''_'' then (if after_digit then hex_digits acc False cs else None)
      else (case hex_digit_value c of
              None \<Rightarrow> None
            | Some d \<Rightarrow> hex_digits (16 * acc + d) True cs))"

definition int_16 :: "string \<Rightarrow> error + int" where
  "int_16 s =
     (let t = rev (dropWhile is_space (rev (dropWhile is_space (to_ascii s))));
          negative = (t \<noteq> [] \<and> hd t = CHR ''-'');
          t1 = (if t \<noteq> [] \<and> (hd t = CHR ''-'' \<or> hd t = CHR ''+'') then tl t else t);
          t2 = (if take 2 t1 = ''0x'' \<or> take 2 t1 = ''0X''
                then (if take 1 (drop 2 t1) = ''_'' then drop 3 t1 else drop 2 t1)
                else t1)
      in case hex_digits 0 False t2 of
           None \<Rightarrow> Inl ValueError
         | Some n \<Rightarrow> Inr (if negative then - n else n))"

datatype uuid = UUID (uuid_int: int)

definition UUID_hex :: "string \<Rightarrow> error + uuid" where
  "UUID_hex hex =
     (let hex1 = str_remove ''uuid:'' (str_remove ''urn:'' hex);
          hex2 = str_remove ''-'' (str_strip {CHR ''{'', CHR ''}''} hex1)
      in if length hex2 \<noteq> 32 then Inl ValueError
         else (case int_16 hex2 of
                 Inl e \<Rightarrow> Inl e
               | Inr i \<Rightarrow> if 0 \<le> i \<and> i < 2 ^ 128 then Inr (UUID i) else Inl ValueError))"

definition hex_char :: "int \<Rightarrow> char" where
  "hex_char d = (if d < 10 then char_of (48 + d) else char_of (87 + d))"

function hex_of_int :: "int \<Rightarrow> string" where
  "hex_of_int n = (if n < 16 then [hex_char n] else hex_of_int (n div 16) @ [hex_char (n mod 16)])"
  by pat_completeness auto
termination
  by (relation "measure nat") auto

declare hex_of_int.simps [simp del]

definition format_032x :: "int \<Rightarrow> string" where
  "format_032x i = (let ds = hex_of_int i in replicate (32 - length ds) CHR ''0'' @ ds)"

definition uuid_str :: "uuid \<Rightarrow> string" where
  "uuid_str u =
     (let hex = format_032x (uuid_int u)
      in take 8 hex @ ''-'' @ take 4 (drop 8 hex) @ ''-'' @ take 4 (drop 12 hex) @ ''-''
           @ take 4 (drop 16 hex) @ ''-'' @ drop 20 hex)"




section \<open>Tabular datasets\<close>

text \<open>
  A frame is its column labels with their dtypes and its rows, in order. A cell is
  \<open>NaN\<close>, the missing value of a float column (and \<open>NaT\<close>, that of a datetime column),
  \<open>None\<close>, a number, a string, a timestamp (the wall-clock nanoseconds since the epoch;
  the time zone of a datetime column belongs to its dtype), or a datetime object that
  carries its own offset from UTC in seconds, as an object column can hold.
\<close>

datatype cell = NaN | NoneValue | Num rat | Str string | Timestamp int | Aware int int

datatype dtype =
  CategoricalDtype | NumericDtype | DatetimeDtype "string option" | ObjectDtype | OtherDtype

record dataframe =
  columns :: "(string \<times> dtype) list"
  rows :: "cell list list"

definition is_categorical_dtype :: "dtype \<Rightarrow> bool" where
  "is_categorical_dtype d = (d = CategoricalDtype)"

definition is_numeric_dtype :: "dtype \<Rightarrow> bool" where
  "is_numeric_dtype d = (d = NumericDtype)"

definition is_object_dtype :: "dtype \<Rightarrow> bool" where
  "is_object_dtype d = (d = ObjectDtype)"

definition is_datetime64_any_dtype :: "dtype \<Rightarrow> bool" where
  "is_datetime64_any_dtype d = (case d of DatetimeDtype tz \<Rightarrow> True | _ \<Rightarrow> False)"

text \<open>\<open>isna\<close>: the missing values.\<close>

definition is_missing :: "cell \<Rightarrow> bool" where
  "is_missing v = (v = NaN \<or> v = NoneValue)"

text \<open>A cell that a column of the dtype can hold; the other dtypes hold any object.\<close>

definition cell_fits :: "dtype \<Rightarrow> cell \<Rightarrow> bool" where
  "cell_fits d v =
     (case d of
        NumericDtype \<Rightarrow> (case v of NaN \<Rightarrow> True | Num x \<Rightarrow> True | _ \<Rightarrow> False)
      | DatetimeDtype tz \<Rightarrow> (case v of NaN \<Rightarrow> True | Timestamp t \<Rightarrow> True | _ \<Rightarrow> False)
      | _ \<Rightarrow> True)"

definition well_typed :: "dataframe \<Rightarrow> bool" where
  "well_typed df = list_all (list_all2 (\<lambda>c v. cell_fits (snd c) v) (columns df)) (rows df)"

text \<open>The row-alignment invariant: every row has one cell for every column.\<close>

definition aligned :: "dataframe \<Rightarrow> bool" where
  "aligned df = list_all (\<lambda>r. length r = length (columns df)) (rows df)"

fun find_column :: "string \<Rightarrow> (string \<times> dtype) list \<Rightarrow> nat option" where
  "find_column c [] = None"
| "find_column c (col # cols) =
     (if fst col = c then Some 0 else map_option Suc (find_column c cols))"

definition cell_at :: "cell list \<Rightarrow> nat \<Rightarrow> cell" where
  "cell_at r i = (if i < length r then r ! i else NaN)"

definition column_values :: "dataframe \<Rightarrow> nat \<Rightarrow> cell list" where
  "column_values df i = map (\<lambda>r. cell_at r i) (rows df)"

definition column_dtype :: "dataframe \<Rightarrow> nat \<Rightarrow> dtype" where
  "column_dtype df i = snd (columns df ! i)"

text \<open>\<open>df[col]\<close>: the dtype and the values of the column of that label.\<close>

definition get_column :: "dataframe \<Rightarrow> string \<Rightarrow> (dtype \<times> cell list) option" where
  "get_column df col =
     map_option (\<lambda>i. (column_dtype df i, column_values df i)) (find_column col (columns df))"

definition set_column :: "nat \<Rightarrow> dtype \<Rightarrow> cell list \<Rightarrow> dataframe \<Rightarrow> dataframe" where
  "set_column i d vs df =
     df\<lparr>columns := (columns df)[i := (fst (columns df ! i), d)],
        rows := map (\<lambda>(r, v). r[i := v]) (zip (rows df) vs)\<rparr>"

text \<open>\<open>df[mask]\<close>: the rows whose mask is true, in order.\<close>

definition select_rows :: "(cell list \<Rightarrow> bool) \<Rightarrow> dataframe \<Rightarrow> dataframe" where
  "select_rows p df = df\<lparr>rows := filter p (rows df)\<rparr>"

text \<open>
  \<open>Series.unique\<close> keeps the first occurrence of every value, a missing value among them;
  \<open>Series.nunique\<close> counts the distinct values that are not missing.
\<close>

definition unique :: "cell list \<Rightarrow> cell list" where
  "unique vs = rev (remdups (rev vs))"

definition nunique :: "cell list \<Rightarrow> nat" where
  "nunique vs = length (remdups (filter (\<lambda>v. \<not> is_missing v) vs))"

definition isin :: "cell \<Rightarrow> cell list \<Rightarrow> bool" where
  "isin v vals = (v \<in> set vals)"

definition num_values :: "cell list \<Rightarrow> rat list" where
  "num_values vs = List.map_filter (\<lambda>v. case v of Num x \<Rightarrow> Some x | _ \<Rightarrow> None) vs"

definition time_values :: "cell list \<Rightarrow> int list" where
  "time_values vs = List.map_filter (\<lambda>v. case v of Timestamp t \<Rightarrow> Some t | _ \<Rightarrow> None) vs"

text \<open>\<open>Series.min\<close> and \<open>Series.max\<close> skip missing values; \<open>None\<close> when nothing is left.\<close>

definition series_min :: "('a::linorder) list \<Rightarrow> 'a option" where
  "series_min xs = (case xs of [] \<Rightarrow> None | x # ys \<Rightarrow> Some (fold min ys x))"

definition series_max :: "('a::linorder) list \<Rightarrow> 'a option" where
  "series_max xs = (case xs of [] \<Rightarrow> None | x # ys \<Rightarrow> Some (fold max ys x))"

definition ns_per_day :: int where
  "ns_per_day = 86400000000000"

text \<open>A date is a number of days since the epoch: \<open>Timestamp.date()\<close> and back.\<close>

definition date_of :: "int \<Rightarrow> int" where
  "date_of t = t div ns_per_day"

definition to_datetime_date :: "int \<Rightarrow> int" where
  "to_datetime_date d = d * ns_per_day"

text \<open>\<open>Series.between\<close> on timestamps: inclusive at both ends, false on a missing value.\<close>

definition between_time :: "cell \<Rightarrow> int \<Rightarrow> int \<Rightarrow> bool" where
  "between_time v left right = (case v of Timestamp t \<Rightarrow> left \<le> t \<and> t \<le> right | _ \<Rightarrow> False)"

section \<open>What the libraries and the viewer supply\<close>

text \<open>
  The parts of pandas and Python that the filter calls and that are not modelled:
  \<open>pd.to_datetime\<close> on a column (\<open>None\<close> when it raises), the regular expression engine
  (\<open>None\<close> when the pattern does not compile), \<open>str\<close> of a number or a datetime, and
  \<open>float\<close>, the rounding of a number to the nearest 64-bit float.
\<close>

record library =
  to_datetime :: "cell list \<Rightarrow> (dtype \<times> cell list) option"
  re_search :: "string \<Rightarrow> (string \<Rightarrow> bool) option"
  py_str :: "cell \<Rightarrow> string"
  py_float :: "rat \<Rightarrow> rat"

text \<open>
  \<open>Series.between\<close> on numbers: the bounds are floats, so the numbers of the column are
  compared as floats; inclusive at both ends, false on a missing value.
\<close>

definition between :: "library \<Rightarrow> cell \<Rightarrow> rat \<Rightarrow> rat \<Rightarrow> bool" where
  "between lib v left right =
     (case v of Num x \<Rightarrow> left \<le> py_float lib x \<and> py_float lib x \<le> right | _ \<Rightarrow> False)"

text \<open>
  The state of the widgets of one run, by column: \<open>None\<close> is a widget the viewer has not
  touched, which returns its default.
\<close>

record widgets =
  add_filters :: bool
  filter_data_on :: "string list"
  values_multiselect :: "string \<Rightarrow> cell list option"
  values_slider :: "string \<Rightarrow> (rat \<times> rat) option"
  values_date_input :: "string \<Rightarrow> int list option"
  text_input :: "string \<Rightarrow> string"

text \<open>
  Python's \<open>in\<close> on the options of a multiselect: \<open>NaN\<close> is equal to nothing, itself
  included, and the options and the defaults are converted apart, so it is not found.
\<close>

definition py_in :: "cell \<Rightarrow> cell list \<Rightarrow> bool" where
  "py_in v opts = (v \<noteq> NaN \<and> v \<in> set opts)"

text \<open>
  A multiselect raises when one of its defaults is not among its options, on every run;
  it returns chosen options only.
\<close>

definition st_multiselect ::
  "('a \<Rightarrow> 'a list \<Rightarrow> bool) \<Rightarrow> 'a list \<Rightarrow> 'a list \<Rightarrow> 'a list option \<Rightarrow> error + 'a list" where
  "st_multiselect found options dflt chosen =
     (if \<not> list_all (\<lambda>v. found v options) dflt then Inl StreamlitAPIException
      else (case chosen of
              None \<Rightarrow> Inr dflt
            | Some picks \<Rightarrow> Inr (filter (\<lambda>p. p \<in> set options) picks)))"

text \<open>
  A slider raises on a step of 0. The viewer can move it between its bounds only, the lower
  end not above the upper; a state outside them is refused as a value given to \<open>st.slider\<close>
  is.
\<close>

definition st_slider ::
  "rat \<Rightarrow> rat \<Rightarrow> rat \<times> rat \<Rightarrow> rat \<Rightarrow> (rat \<times> rat) option \<Rightarrow> error + rat \<times> rat" where
  "st_slider min_value max_value dflt step chosen =
     (if step = 0 then Inl StreamlitAPIException
      else (case chosen of
              None \<Rightarrow> Inr dflt
            | Some (a, b) \<Rightarrow>
                if min_value \<le> a \<and> a \<le> b \<and> b \<le> max_value then Inr (a, b)
                else Inl StreamlitAPIException))"

text \<open>
  A date picker returns the dates that the viewer has picked, none, one or two, and its
  default while untouched. The limits of the picker, ten years before and after its
  default, are left out: every list of dates is taken, those that the viewer can pick
  among them.
\<close>

definition st_date_input :: "int list \<Rightarrow> int list option \<Rightarrow> int list" where
  "st_date_input dflt chosen = (case chosen of None \<Rightarrow> dflt | Some v \<Rightarrow> v)"

section \<open>The dataframe filter (\<open>filter_dataframe\<close>)\<close>

text \<open>
  The first loop: an object column is given to \<open>pd.to_datetime\<close>, and every exception of
  the conversion or of the assignment (a column of another length) is passed over; a
  datetime column then loses its time zone and keeps its wall-clock times.
\<close>

definition normalize_column :: "library \<Rightarrow> dataframe \<Rightarrow> string \<Rightarrow> dataframe" where
  "normalize_column lib df col =
     (case find_column col (columns df) of
        None \<Rightarrow> df
      | Some i \<Rightarrow>
          (let df1 =
                 (if is_object_dtype (column_dtype df i) then
                    (case to_datetime lib (column_values df i) of
                       None \<Rightarrow> df
                     | Some (d, vs) \<Rightarrow>
                         if length vs = length (rows df) then set_column i d vs df else df)
                  else df)
           in if is_datetime64_any_dtype (column_dtype df1 i)
              then set_column i (DatetimeDtype None) (column_values df1 i) df1
              else df1))"

text \<open>
  The same two steps on one column alone, its dtype with its values: what the loop body
  leaves in the column it visits.
\<close>

definition normalize_series :: "library \<Rightarrow> dtype \<times> cell list \<Rightarrow> dtype \<times> cell list" where
  "normalize_series lib s =
     (let s1 =
            (if is_object_dtype (fst s) then
               (case to_datetime lib (snd s) of
                  None \<Rightarrow> s
                | Some (d, vs) \<Rightarrow> if length vs = length (snd s) then (d, vs) else s)
             else s)
      in if is_datetime64_any_dtype (fst s1) then (DatetimeDtype None, snd s1) else s1)"

definition normalize :: "library \<Rightarrow> dataframe \<Rightarrow> dataframe" where
  "normalize lib df = fold (\<lambda>col d. normalize_column lib d col) (map fst (columns df)) df"

datatype kind = Categorical | Numeric | Temporal | Textual

text \<open>The conditions of the \<open>if\<close>/\<open>elif\<close> chain of the second loop, in its order.\<close>

definition column_kind :: "dtype \<Rightarrow> cell list \<Rightarrow> kind" where
  "column_kind d vs =
     (if is_categorical_dtype d \<or> nunique vs < 10 then Categorical
      else if is_numeric_dtype d then Numeric
      else if is_datetime64_any_dtype d then Temporal
      else Textual)"

text \<open>The kind of the column of a label in a frame.\<close>

definition kind_of_column :: "dataframe \<Rightarrow> string \<Rightarrow> kind option" where
  "kind_of_column df col = map_option (\<lambda>(d, vs). column_kind d vs) (get_column df col)"

text \<open>\<open>astype(str)\<close>: a string is itself, the missing values print as \<open>nan\<close> and \<open>None\<close>.\<close>

definition astype_str :: "library \<Rightarrow> cell \<Rightarrow> string" where
  "astype_str lib v =
     (case v of Str s \<Rightarrow> s | NaN \<Rightarrow> ''nan'' | NoneValue \<Rightarrow> ''None'' | _ \<Rightarrow> py_str lib v)"

text \<open>
  The body of the second loop for one selected column, on the frame as the columns before
  it have left it. The bounds of the slider are the floats of the least and the greatest
  number, its step a hundredth of their distance. A numeric or datetime column of ten
  distinct values has a minimum; the \<open>IllTyped\<close> branches are there for frames that pandas
  cannot build.
\<close>

definition filter_column :: "library \<Rightarrow> widgets \<Rightarrow> dataframe \<Rightarrow> string \<Rightarrow> error + dataframe" where
  "filter_column lib ui df column =
     (case find_column column (columns df) of
        None \<Rightarrow> Inl KeyError
      | Some i \<Rightarrow>
          (let vs = column_values df i in
           case column_kind (column_dtype df i) vs of
             Categorical \<Rightarrow>
               (case st_multiselect py_in (unique vs) (unique vs) (values_multiselect ui column) of
                  Inl e \<Rightarrow> Inl e
                | Inr user_cat_input \<Rightarrow>
                    Inr (select_rows (\<lambda>r. isin (cell_at r i) user_cat_input) df))
           | Numeric \<Rightarrow>
               (case (series_min (num_values vs), series_max (num_values vs)) of
                  (Some lo, Some hi) \<Rightarrow>
                    (let min_v = py_float lib lo;
                         max_v = py_float lib hi;
                         step = (max_v - min_v) / 100
                     in case st_slider min_v max_v (min_v, max_v) step (values_slider ui column) of
                          Inl e \<Rightarrow> Inl e
                        | Inr user_num_input \<Rightarrow>
                            Inr (select_rows
                              (\<lambda>r. between lib (cell_at r i) (fst user_num_input)
                                     (snd user_num_input)) df))
                | _ \<Rightarrow> Inl IllTyped)
           | Temporal \<Rightarrow>
               (case (series_min (time_values vs), series_max (time_values vs)) of
                  (Some min_v, Some max_v) \<Rightarrow>
                    (let user_date_input =
                           st_date_input [date_of min_v, date_of max_v]
                             (values_date_input ui column)
                     in if length user_date_input = 2 then
                          (let start_date = to_datetime_date (user_date_input ! 0);
                               end_date = to_datetime_date (user_date_input ! 1)
                           in Inr (select_rows
                                (\<lambda>r. between_time (cell_at r i) start_date end_date) df))
                        else Inr df)
                | _ \<Rightarrow> Inl IllTyped)
           | Textual \<Rightarrow>
               (let user_text_input = text_input ui column
                in if user_text_input \<noteq> [] then
                     (case re_search lib user_text_input of
                        None \<Rightarrow> Inl ReError
                      | Some found \<Rightarrow>
                          Inr (select_rows (\<lambda>r. found (astype_str lib (cell_at r i))) df))
                   else Inr df)))"

fun filter_columns :: "library \<Rightarrow> widgets \<Rightarrow> dataframe \<Rightarrow> string list \<Rightarrow> error + dataframe" where
  "filter_columns lib ui df [] = Inr df"
| "filter_columns lib ui df (column # cs) =
     (case filter_column lib ui df column of
        Inl e \<Rightarrow> Inl e
      | Inr df' \<Rightarrow> filter_columns lib ui df' cs)"

text \<open>The multiselect of the columns has no default, so it does not raise.\<close>

definition filter_dataframe :: "library \<Rightarrow> widgets \<Rightarrow> dataframe \<Rightarrow> error + dataframe" where
  "filter_dataframe lib ui df =
     (if \<not> add_filters ui then Inr df
      else (let df1 = normalize lib df
            in case st_multiselect (\<lambda>v opts. v \<in> set opts) (map fst (columns df1)) []
                      (Some (filter_data_on ui)) of
                 Inl e \<Rightarrow> Inl e
               | Inr to_filter_columns \<Rightarrow> filter_columns lib ui df1 to_filter_columns))"

text \<open>
  The branch of the chain that the second loop takes for each selected column of a run, in
  its order, up to the column at which a widget raises: the kinds of the widgets that the
  page shows in that run.
\<close>

fun kinds_shown :: "library \<Rightarrow> widgets \<Rightarrow> dataframe \<Rightarrow> string list \<Rightarrow> kind list" where
  "kinds_shown lib ui df [] = []"
| "kinds_shown lib ui df (column # cs) =
     (case kind_of_column df column of
        None \<Rightarrow> []
      | Some k \<Rightarrow>
          k # (case filter_column lib ui df column of
                 Inl e \<Rightarrow> []
               | Inr df' \<Rightarrow> kinds_shown lib ui df' cs))"


section \<open>The two tabs\<close>

datatype effect =
  StWrite string string
| StError string
| Query string
| LineChart dataframe
| StDataframe dataframe
| StImage qr_image
| DownloadButton qr_image

text \<open>
  The first tab: \<open>table\<close> is the query of the speed test results of a device, with its
  projection and order. Only \<open>ValueError\<close> is caught; another exception of the filter
  leaves the handler.
\<close>

definition tab1 ::
  "library \<Rightarrow> widgets \<Rightarrow> (string \<Rightarrow> dataframe) \<Rightarrow> string \<Rightarrow> error + effect list" where
  "tab1 lib ui table device_UUID =
     (if device_UUID = [] then Inr []
      else (case UUID_hex device_UUID of
              Inl e \<Rightarrow> Inr [StError ''The entered UUID is invalid. Please check the format and try again.'']
            | Inr device_UUID_formatted \<Rightarrow>
                (let speed_results_dataframe = table (uuid_str device_UUID_formatted)
                 in case filter_dataframe lib ui speed_results_dataframe of
                      Inl e \<Rightarrow>
                        if e = ValueError
                        then Inr [StWrite ''You are looking for the test triggered by''
                                    (uuid_str device_UUID_formatted),
                                  Query (uuid_str device_UUID_formatted),
                                  StError ''The entered UUID is invalid. Please check the format and try again.'']
                        else Inl e
                    | Inr filtered_dataframe \<Rightarrow>
                        Inr [StWrite ''You are looking for the test triggered by''
                               (uuid_str device_UUID_formatted),
                             Query (uuid_str device_UUID_formatted),
                             LineChart filtered_dataframe,
                             StDataframe filtered_dataframe])))"

text \<open>
  The second tab: the password widget exists only when the authentication is not
  \<open>OPEN\<close>; \<open>password_field\<close> is what the viewer has typed into it.
\<close>

record wifi_form =
  ssid_field :: string
  authentication_choice :: string
  password_field :: string
  hidden_box :: bool
  generate_clicked :: bool

definition tab2_password :: "wifi_form \<Rightarrow> string" where
  "tab2_password form =
     (if authentication_choice form \<noteq> ''OPEN'' then password_field form else [])"

definition tab2 :: "wifi_form \<Rightarrow> effect list" where
  "tab2 form =
     (let ssid = ssid_field form;
          authentication = authentication_choice form;
          password = tab2_password form;
          hidden = hidden_box form
      in if generate_clicked form then
           (if ssid = [] then [StError ''SSID is required!'']
            else if authentication \<noteq> ''OPEN'' \<and> password = []
              then [StError ''Password is required for selected authentication!'']
            else (let img = generate_wifi_qr ssid authentication password hidden
                  in [StImage img, DownloadButton img]))
         else [])"
section \<open>Example data\<close>

text \<open>
  A stand-in for the libraries in the examples. Two date strings with the offset of UTC
  parse to timestamps in UTC; two date strings of different offsets parse to datetime
  objects that keep their offsets, in an object column, as pandas 2 returns them; nothing
  else parses. A pattern is searched as a literal substring, and the lone parenthesis does
  not compile. The numbers of the examples are floats already.
\<close>

definition example_library :: library where
  "example_library =
     \<lparr>to_datetime =
        (\<lambda>vs. if vs = [Str ''2024-01-01T00:00:00+00:00'', Str ''2024-01-02T00:00:00+00:00'']
              then Some (DatetimeDtype (Some ''UTC''),
                         [Timestamp 1704067200000000000, Timestamp 1704153600000000000])
              else if vs = [Str ''2024-01-01T00:00:00+01:00'', Str ''2024-01-02T00:00:00+02:00'']
              then Some (ObjectDtype,
                         [Aware 1704067200000000000 3600, Aware 1704153600000000000 7200])
              else None),
      re_search = (\<lambda>p. if p = ''('' then None else Some (\<lambda>s. sublist p s)),
      py_str = (\<lambda>v. ''?''),
      py_float = (\<lambda>x. x)\<rparr>"


text \<open>The filters are on and no widget has been touched.\<close>

definition untouched :: widgets where
  "untouched =
     \<lparr>add_filters = True, filter_data_on = [],
      values_multiselect = (\<lambda>c. None), values_slider = (\<lambda>c. None),
      values_date_input = (\<lambda>c. None), text_input = (\<lambda>c. [])\<rparr>"

definition numbers :: "nat \<Rightarrow> cell list" where
  "numbers n = map (\<lambda>k. Num (of_nat k)) [1..<Suc n]"





text \<open>
  A datetime column and an object column of \<open>n\<close> rows: noon of the days 1 to \<open>n\<close>, marked
  \<open>b\<close> on the days 1 and 12 and \<open>a\<close> on the others.
\<close>

definition days :: "nat \<Rightarrow> dataframe" where
  "days n =
     \<lparr>columns = [(''END_DATE'', DatetimeDtype None), (''MARK'', ObjectDtype)],
      rows = map (\<lambda>k. [Timestamp (int k * ns_per_day + 43200000000000),
                        Str (if k = 1 \<or> k = 12 then ''b'' else ''a'')]) [1..<Suc n]\<rparr>"



text \<open>Two object columns: date strings with the offset of UTC, and words.\<close>

definition results :: dataframe where
  "results =
     \<lparr>columns = [(''END_DATE'', ObjectDtype), (''NOTE'', ObjectDtype)],
      rows = [[Str ''2024-01-01T00:00:00+00:00'', Str ''fast''],
              [Str ''2024-01-02T00:00:00+00:00'', Str ''slow'']]\<rparr>"

text \<open>One object column of date strings with two different offsets.\<close>

definition mixed_offsets :: dataframe where
  "mixed_offsets =
     \<lparr>columns = [(''END_DATE'', ObjectDtype)],
      rows = [[Str ''2024-01-01T00:00:00+01:00''], [Str ''2024-01-02T00:00:00+02:00'']]\<rparr>"

text \<open>One object column of ten distinct strings.\<close>

definition remarks :: dataframe where
  "remarks =
     \<lparr>columns = [(''NOTE'', ObjectDtype)],
      rows = map (\<lambda>k. [Str (replicate k CHR ''a'')]) [1..<11]\<rparr>"


section \<open>Columns, rows and the first loop\<close>

lemma find_column_Some:
  "find_column c cols = Some i \<Longrightarrow> i < length cols \<and> fst (cols ! i) = c"
proof (induction cols arbitrary: i)
  case Nil
  then show ?case by simp
next
  case (Cons col cols)
  then show ?case by (cases "fst col = c") auto
qed

lemma find_column_names:
  "map fst cols = map fst cols' \<Longrightarrow> find_column c cols = find_column c cols'"
proof (induction cols arbitrary: cols')
  case Nil
  then show ?case by simp
next
  case (Cons col cols)
  then obtain col' rest where c': "cols' = col' # rest" by (cases cols') auto
  with Cons show ?case by auto
qed


lemma find_column_None:
  "c \<notin> set (map fst cols) \<Longrightarrow> find_column c cols = None"
  by (induction cols) auto













lemma filter_length_mono:
  "(\<And>x. x \<in> set xs \<Longrightarrow> P x \<Longrightarrow> Q x) \<Longrightarrow> length (filter P xs) \<le> length (filter Q xs)"
  by (induction xs) auto

lemma set_column_names:
  "map fst (columns (set_column i d vs df)) = map fst (columns df)"
proof (cases "i < length (columns df)")
  case True
  then show ?thesis
    by (simp add: set_column_def map_update list_update_same_conv)
next
  case False
  then show ?thesis by (simp add: set_column_def list_update_beyond)
qed

lemma set_column_length:
  "length vs = length (rows df) \<Longrightarrow> length (rows (set_column i d vs df)) = length (rows df)"
  by (simp add: set_column_def)

lemma cell_at_update_other: "j \<noteq> i \<Longrightarrow> cell_at (r[i := v]) j = cell_at r j"
  by (simp add: cell_at_def)

lemma cell_at_update_self: "i < length r \<Longrightarrow> cell_at (r[i := v]) i = v"
  by (simp add: cell_at_def)

lemma map_zip_fst: "length xs = length ys \<Longrightarrow> map (\<lambda>(x, y). f x) (zip xs ys) = map f xs"
  by (induction xs ys rule: list_induct2) auto

lemma map_zip_update_self:
  "length rs = length vs \<Longrightarrow> \<forall>r \<in> set rs. i < length r \<Longrightarrow>
     map (\<lambda>(r, v). cell_at (r[i := v]) i) (zip rs vs) = vs"
  by (induction rs vs rule: list_induct2) (auto simp: cell_at_update_self)

lemma set_column_values_other:
  assumes "length vs = length (rows df)" "j \<noteq> i"
  shows "column_values (set_column i d vs df) j = column_values df j"
proof -
  have "column_values (set_column i d vs df) j
      = map (\<lambda>(r, v). cell_at r j) (zip (rows df) vs)"
    using assms(2) by (simp add: column_values_def set_column_def cell_at_update_other
        case_prod_unfold)
  also have "\<dots> = map (\<lambda>r. cell_at r j) (rows df)"
    using assms(1) by (simp add: map_zip_fst)
  finally show ?thesis by (simp add: column_values_def)
qed

lemma set_column_values_self:
  assumes "length vs = length (rows df)" "aligned df" "i < length (columns df)"
  shows "column_values (set_column i d vs df) i = vs"
proof -
  have "\<forall>r \<in> set (rows df). i < length r"
    using assms(2,3) by (simp add: aligned_def list_all_iff)
  with assms(1) map_zip_update_self [of "rows df" vs i] show ?thesis
    by (simp add: column_values_def set_column_def case_prod_unfold comp_def)
qed

lemma set_column_dtype_self:
  "i < length (columns df) \<Longrightarrow> column_dtype (set_column i d vs df) i = d"
  by (simp add: column_dtype_def set_column_def)

lemma set_column_dtype_other:
  "j \<noteq> i \<Longrightarrow> column_dtype (set_column i d vs df) j = column_dtype df j"
  by (simp add: column_dtype_def set_column_def)

lemma set_column_aligned:
  "aligned df \<Longrightarrow> aligned (set_column i d vs df)"
  by (auto simp: aligned_def set_column_def list_all_iff dest!: set_zip_leftD)

lemma column_values_length: "length (column_values df i) = length (rows df)"
  by (simp add: column_values_def)

text \<open>What the first loop does to a column it visits, as a function of that column.\<close>

lemma normalize_column_names:
  "map fst (columns (normalize_column lib df c)) = map fst (columns df)"
  by (auto simp: normalize_column_def Let_def set_column_names split: option.splits)

lemma normalize_column_length:
  "length (rows (normalize_column lib df c)) = length (rows df)"
  by (auto simp: normalize_column_def Let_def set_column_length column_values_length
      split: option.splits)

lemma normalize_column_aligned:
  "aligned df \<Longrightarrow> aligned (normalize_column lib df c)"
  by (auto simp: normalize_column_def Let_def set_column_aligned split: option.splits)

lemma normalize_column_other:
  assumes "find_column c' (columns df) = Some j" "c' \<noteq> c"
  shows "get_column (normalize_column lib df c) c' = get_column df c'"
proof (cases "find_column c (columns df)")
  case None
  then show ?thesis by (simp add: normalize_column_def)
next
  case (Some i)
  with assms have ij: "j \<noteq> i"
    using find_column_Some by blast
  have f: "find_column c' (columns (normalize_column lib df c)) = Some j"
    using find_column_names [OF normalize_column_names] assms(1) by simp
  have "column_dtype (normalize_column lib df c) j = column_dtype df j"
    using Some ij
    by (auto simp: normalize_column_def Let_def set_column_dtype_other split: option.splits)
  moreover have "column_values (normalize_column lib df c) j = column_values df j"
    using Some ij
    by (auto simp: normalize_column_def Let_def set_column_values_other set_column_length
        column_values_length split: option.splits)
  ultimately show ?thesis
    using f assms(1) by (simp add: get_column_def)
qed

lemma normalize_column_self:
  assumes "aligned df" "find_column c (columns df) = Some i"
  shows "get_column (normalize_column lib df c) c
           = Some (normalize_series lib (column_dtype df i, column_values df i))"
proof -
  from assms(2) have i: "i < length (columns df)" by (simp add: find_column_Some)
  have f: "find_column c (columns (normalize_column lib df c)) = Some i"
    using find_column_names [OF normalize_column_names] assms(2) by simp
  define df1 where "df1 =
     (if is_object_dtype (column_dtype df i) then
        (case to_datetime lib (column_values df i) of
           None \<Rightarrow> df
         | Some (d, vs) \<Rightarrow> if length vs = length (rows df) then set_column i d vs df else df)
      else df)"
  define s1 where "s1 =
     (if is_object_dtype (column_dtype df i) then
        (case to_datetime lib (column_values df i) of
           None \<Rightarrow> (column_dtype df i, column_values df i)
         | Some (d, vs) \<Rightarrow> if length vs = length (column_values df i) then (d, vs)
             else (column_dtype df i, column_values df i))
      else (column_dtype df i, column_values df i))"
  have a1: "aligned df1"
    using assms(1) by (auto simp: df1_def set_column_aligned split: option.splits)
  have l1: "length (columns df1) = length (columns df)"
    using set_column_names [of i _ _ df, THEN arg_cong, of length]
    by (auto simp: df1_def split: option.splits)
  have c1: "(column_dtype df1 i, column_values df1 i) = s1"
    using assms(1) i
    by (auto simp: df1_def s1_def column_values_length set_column_dtype_self
        set_column_values_self split: option.splits)
  have n: "normalize_column lib df c =
      (if is_datetime64_any_dtype (column_dtype df1 i)
       then set_column i (DatetimeDtype None) (column_values df1 i) df1 else df1)"
    using assms(2) by (simp add: normalize_column_def df1_def Let_def)
  have "(column_dtype (normalize_column lib df c) i, column_values (normalize_column lib df c) i)
      = (if is_datetime64_any_dtype (fst s1) then (DatetimeDtype None, snd s1) else s1)"
    using a1 l1 i c1 [symmetric]
    by (simp add: n set_column_dtype_self set_column_values_self column_values_length)
  moreover have "normalize_series lib (column_dtype df i, column_values df i)
      = (if is_datetime64_any_dtype (fst s1) then (DatetimeDtype None, snd s1) else s1)"
    unfolding normalize_series_def s1_def Let_def fst_conv snd_conv ..
  ultimately show ?thesis
    using f by (simp add: get_column_def)
qed

lemma fold_normalize_column:
  assumes "distinct cs" "aligned d" "find_column col (columns d) = Some i"
  shows "get_column (fold (\<lambda>c d. normalize_column lib d c) cs d) col
           = (if col \<in> set cs
              then Some (normalize_series lib (column_dtype d i, column_values d i))
              else get_column d col)"
  using assms
proof (induction cs arbitrary: d)
  case Nil
  then show ?case by simp
next
  case (Cons c cs)
  let ?d1 = "normalize_column lib d c"
  have a1: "aligned ?d1" using Cons.prems(2) by (rule normalize_column_aligned)
  have f1: "find_column col (columns ?d1) = Some i"
    using find_column_names [OF normalize_column_names] Cons.prems(3) by simp
  have d: "distinct cs" using Cons.prems(1) by simp
  note ih = Cons.IH [OF d a1 f1]
  show ?case
  proof (cases "c = col")
    case True
    then have "col \<notin> set cs" using Cons.prems(1) by simp
    with ih True normalize_column_self [OF Cons.prems(2,3), of lib] show ?thesis
      by simp
  next
    case False
    from normalize_column_other [OF Cons.prems(3), of c lib] False
    have g: "get_column ?d1 col = get_column d col" by simp
    with f1 Cons.prems(3)
    have "column_dtype ?d1 i = column_dtype d i" "column_values ?d1 i = column_values d i"
      by (simp_all add: get_column_def)
    with ih g False show ?thesis by simp
  qed
qed

section \<open>The second loop\<close>








lemma fold_normalize_names:
  "map fst (columns (fold (\<lambda>c d. normalize_column lib d c) cs d)) = map fst (columns d)"
  by (induction cs arbitrary: d) (simp_all add: normalize_column_names)

lemma normalize_names: "map fst (columns (normalize lib df)) = map fst (columns df)"
  by (simp add: normalize_def fold_normalize_names)

lemma well_typed_select: "well_typed df \<Longrightarrow> well_typed (select_rows p df)"
  by (simp add: well_typed_def select_rows_def list_all_iff)






lemma filter_dataframe_run:
  "add_filters ui \<Longrightarrow>
     filter_dataframe lib ui df
       = filter_columns lib ui (normalize lib df)
           (filter (\<lambda>p. p \<in> set (map fst (columns (normalize lib df)))) (filter_data_on ui))"
  by (simp add: filter_dataframe_def st_multiselect_def Let_def)


lemma kind_of_column_Some:
  "kind_of_column df c = Some k \<Longrightarrow>
     \<exists>i. find_column c (columns df) = Some i
        \<and> column_kind (column_dtype df i) (column_values df i) = k"
  by (auto simp: kind_of_column_def get_column_def)







lemma uuid_empty: "UUID_hex [] = Inl ValueError"
  by code_simp















lemma kinds_shown_one:
  "kinds_shown lib ui d [c] = (case kind_of_column d c of None \<Rightarrow> [] | Some k \<Rightarrow> [k])"
  by (simp split: option.splits sum.splits)



section \<open>Reading and printing identifiers\<close>

















section \<open>Evaluations on the example data\<close>

lemma nunique_numbers9: "nunique (numbers 9) = 9"
  by code_simp

lemma nunique_numbers10: "nunique (numbers 10) = 10"
  by code_simp

lemma example_uuid:
  "UUID_hex ''123e4567-e89b-12d3-a456-426614174000''
     = Inr (UUID 24249434048109030647017182301789831168)"
  by code_simp

























lemma days10_kinds:
  "kind_of_column (days 10) ''END_DATE'' = Some Temporal
   \<and> kind_of_column ((days 10)\<lparr>rows := tl (rows (days 10))\<rparr>) ''END_DATE'' = Some Categorical"
  by code_simp

















lemma results_columns:
  "aligned results \<and> distinct (map fst (columns results))
   \<and> get_column results ''END_DATE''
       = Some (ObjectDtype, [Str ''2024-01-01T00:00:00+00:00'', Str ''2024-01-02T00:00:00+00:00''])
   \<and> get_column results ''NOTE'' = Some (ObjectDtype, [Str ''fast'', Str ''slow''])"
  by code_simp

lemma mixed_offsets_column:
  "aligned mixed_offsets \<and> distinct (map fst (columns mixed_offsets))
   \<and> get_column mixed_offsets ''END_DATE''
       = Some (ObjectDtype, [Str ''2024-01-01T00:00:00+01:00'', Str ''2024-01-02T00:00:00+02:00''])"
  by code_simp

lemma remarks_kind:
  "kind_of_column (normalize example_library remarks) ''NOTE'' = Some Textual"
  by code_simp








section \<open>The claims\<close>







text \<open>
  C3: a text filter whose pattern does not compile. The claim wants no exception to leave
  the filter; the filter has no handler, so the error of the regular expression engine
  leaves it, and it leaves the page's handler too, which catches \<open>ValueError\<close> only.
\<close>

theorem invalid_pattern_raises:
  assumes "add_filters ui" and "filter_data_on ui = [c]"
    and "kind_of_column (normalize lib df) c = Some Textual"
    and "text_input ui c \<noteq> []"
    and "re_search lib (text_input ui c) = None"
  shows "filter_dataframe lib ui df = Inl ReError
       \<and> (\<forall>s u table. UUID_hex s = Inr u \<and> table (uuid_str u) = df \<longrightarrow>
            tab1 lib ui table s = Inl ReError)"
proof -
  from kind_of_column_Some [OF assms(3)] obtain i where
    i: "find_column c (columns (normalize lib df)) = Some i"
    and k: "column_kind (column_dtype (normalize lib df) i)
              (column_values (normalize lib df) i) = Textual" by blast
  from i have inn: "c \<in> set (map fst (columns (normalize lib df)))"
    using find_column_None by fastforce
  from i k assms(4,5) have "filter_column lib ui (normalize lib df) c = Inl ReError"
    by (simp add: filter_column_def)
  with assms(1,2) inn
  have f: "filter_dataframe lib ui df = Inl ReError"
    by (simp add: filter_dataframe_run)
  have "tab1 lib ui table s = Inl ReError"
    if "UUID_hex s = Inr u \<and> table (uuid_str u) = df" for s u table
  proof -
    from that uuid_empty have "s \<noteq> []" by auto
    with that f show ?thesis by (simp add: tab1_def)
  qed
  with f show ?thesis by blast
qed

theorem invalid_pattern_raises_witness:
  "filter_dataframe example_library
     (untouched\<lparr>filter_data_on := [''NOTE''], text_input := (\<lambda>c. ''('')\<rparr>) remarks = Inl ReError
   \<and> tab1 example_library
     (untouched\<lparr>filter_data_on := [''NOTE''], text_input := (\<lambda>c. ''('')\<rparr>) (\<lambda>u. remarks)
     ''123e4567-e89b-12d3-a456-426614174000'' = Inl ReError"
proof -
  let ?ui = "untouched\<lparr>filter_data_on := [''NOTE''], text_input := (\<lambda>c. ''('')\<rparr>"
  have 1: "add_filters ?ui" and 2: "filter_data_on ?ui = [''NOTE'']"
    and 4: "text_input ?ui ''NOTE'' \<noteq> []"
    and 5: "re_search example_library (text_input ?ui ''NOTE'') = None"
    by (simp_all add: untouched_def example_library_def)
  from invalid_pattern_raises [OF 1 2 remarks_kind 4 5] example_uuid
  show ?thesis by simp
qed

text \<open>
  C4: the test for a categorical column comes first: a column of categorical dtype or of
  fewer than 10 distinct values is categorical whatever it holds, and a numeric column of
  10 or more distinct values is numeric. Distinct values are counted as \<open>nunique\<close> counts
  them, without the missing value.
\<close>

theorem kind_threshold:
  "(is_categorical_dtype d \<or> nunique vs < 10 \<longrightarrow> column_kind d vs = Categorical)
   \<and> (is_numeric_dtype d \<and> 10 \<le> nunique vs \<longrightarrow> column_kind d vs = Numeric)
   \<and> (is_datetime64_any_dtype d \<and> 10 \<le> nunique vs \<longrightarrow> column_kind d vs = Temporal)
   \<and> (is_object_dtype d \<and> 10 \<le> nunique vs \<longrightarrow> column_kind d vs = Textual)"
  by (cases d) (auto simp: column_kind_def is_categorical_dtype_def is_numeric_dtype_def
      is_datetime64_any_dtype_def is_object_dtype_def)

theorem kind_threshold_witness:
  "column_kind NumericDtype (numbers 9) = Categorical
   \<and> column_kind NumericDtype (numbers 10) = Numeric
   \<and> column_kind CategoricalDtype (numbers 10) = Categorical"
  using kind_threshold [of NumericDtype "numbers 9"] kind_threshold [of NumericDtype "numbers 10"]
    kind_threshold [of CategoricalDtype "numbers 10"]
  by (simp add: nunique_numbers9 nunique_numbers10 is_categorical_dtype_def is_numeric_dtype_def)

text \<open>
  C5: with the filters on, an object column is given whole to the date parser, and the pass
  ends without an error. When the parser fails the column stays as it was, and when it
  returns a datetime column the column holds its timestamps without a time zone, as the
  claim says. When the parser returns another column, as for strings of different offsets,
  the column is replaced by it as it is, and the offsets are not stripped, against the
  claim.
\<close>

theorem normalization_pass:
  assumes "aligned df" and "distinct (map fst (columns df))"
    and "get_column df col = Some (ObjectDtype, vs)"
  shows "(to_datetime lib vs = None \<longrightarrow>
            get_column (normalize lib df) col = Some (ObjectDtype, vs))
       \<and> (\<forall>tz ts. to_datetime lib vs = Some (DatetimeDtype tz, ts) \<and> length ts = length vs \<longrightarrow>
            get_column (normalize lib df) col = Some (DatetimeDtype None, ts))
       \<and> (\<forall>d ts. to_datetime lib vs = Some (d, ts) \<and> \<not> is_datetime64_any_dtype d
              \<and> length ts = length vs \<longrightarrow>
            get_column (normalize lib df) col = Some (d, ts))
       \<and> filter_dataframe lib (ui\<lparr>add_filters := True, filter_data_on := []\<rparr>) df
            = Inr (normalize lib df)"
proof -
  from assms(3) obtain i where i: "find_column col (columns df) = Some i"
    and c: "column_dtype df i = ObjectDtype" "column_values df i = vs"
    by (auto simp: get_column_def)
  from i have "col \<in> set (map fst (columns df))"
    using find_column_None by fastforce
  with fold_normalize_column [OF assms(2,1) i, of lib] c
  have n: "get_column (normalize lib df) col = Some (normalize_series lib (ObjectDtype, vs))"
    by (simp add: normalize_def)
  have "filter_dataframe lib (ui\<lparr>add_filters := True, filter_data_on := []\<rparr>) df
            = Inr (normalize lib df)"
    by (simp add: filter_dataframe_run)
  then show ?thesis
    by (simp add: n normalize_series_def is_object_dtype_def is_datetime64_any_dtype_def)
qed

theorem normalization_pass_witness:
  "get_column (normalize example_library results) ''END_DATE''
     = Some (DatetimeDtype None, [Timestamp 1704067200000000000, Timestamp 1704153600000000000])
   \<and> get_column (normalize example_library results) ''NOTE''
     = Some (ObjectDtype, [Str ''fast'', Str ''slow''])
   \<and> get_column (normalize example_library mixed_offsets) ''END_DATE''
     = Some (ObjectDtype, [Aware 1704067200000000000 3600, Aware 1704153600000000000 7200])"
proof -
  note r = results_columns
  note m = mixed_offsets_column
  have p: "to_datetime example_library
             [Str ''2024-01-01T00:00:00+00:00'', Str ''2024-01-02T00:00:00+00:00'']
           = Some (DatetimeDtype (Some ''UTC''),
                   [Timestamp 1704067200000000000, Timestamp 1704153600000000000])"
    "to_datetime example_library [Str ''fast'', Str ''slow''] = None"
    "to_datetime example_library
             [Str ''2024-01-01T00:00:00+01:00'', Str ''2024-01-02T00:00:00+02:00'']
           = Some (ObjectDtype, [Aware 1704067200000000000 3600, Aware 1704153600000000000 7200])"
    by (simp_all add: example_library_def)
  from r have a: "aligned results" and d: "distinct (map fst (columns results))"
    and g1: "get_column results ''END_DATE''
       = Some (ObjectDtype, [Str ''2024-01-01T00:00:00+00:00'', Str ''2024-01-02T00:00:00+00:00''])"
    and g2: "get_column results ''NOTE'' = Some (ObjectDtype, [Str ''fast'', Str ''slow''])"
    by simp_all
  from m have a': "aligned mixed_offsets" and d': "distinct (map fst (columns mixed_offsets))"
    and g3: "get_column mixed_offsets ''END_DATE''
       = Some (ObjectDtype, [Str ''2024-01-01T00:00:00+01:00'', Str ''2024-01-02T00:00:00+02:00''])"
    by simp_all
  from normalization_pass [OF a d g1, of example_library untouched] p(1)
  have "get_column (normalize example_library results) ''END_DATE''
     = Some (DatetimeDtype None, [Timestamp 1704067200000000000, Timestamp 1704153600000000000])"
    by (simp add: is_datetime64_any_dtype_def)
  moreover from normalization_pass [OF a d g2, of example_library untouched] p(2)
  have "get_column (normalize example_library results) ''NOTE''
     = Some (ObjectDtype, [Str ''fast'', Str ''slow''])"
    by simp
  moreover from normalization_pass [OF a' d' g3, of example_library untouched] p(3)
  have "get_column (normalize example_library mixed_offsets) ''END_DATE''
     = Some (ObjectDtype, [Aware 1704067200000000000 3600, Aware 1704153600000000000 7200])"
    by (simp add: is_datetime64_any_dtype_def)
  ultimately show ?thesis by (intro conjI)
qed

text \<open>
  C6: with the filters switched off the frame comes back as it was given: the same rows,
  the same content, the same order.
\<close>

theorem filter_disabled_identity:
  "filter_dataframe lib (ui\<lparr>add_filters := False\<rparr>) df = Inr df"
  by (simp add: filter_dataframe_def)




text \<open>
  C8: for all arguments the encoder's payload is \<open>WIFI:T:<auth>;S:<ssid>;P:<password>;H:\<close>
  followed by \<open>true\<close> or \<open>false\<close> in lower case and two semicolons; for the network
  \<open>MyNet\<close>, open, without password and not hidden it is \<open>WIFI:T:OPEN;S:MyNet;P:;H:false;;\<close>.
\<close>

theorem wifi_string_grammar:
  "qr_data (generate_wifi_qr ssid auth password True)
     = ''WIFI:T:'' @ auth @ '';S:'' @ ssid @ '';P:'' @ password @ '';H:true;;''
   \<and> qr_data (generate_wifi_qr ssid auth password False)
     = ''WIFI:T:'' @ auth @ '';S:'' @ ssid @ '';P:'' @ password @ '';H:false;;''
   \<and> wifi_string ''MyNet'' ''OPEN'' '''' False = ''WIFI:T:OPEN;S:MyNet;P:;H:false;;''"
  by (simp add: generate_wifi_qr_def wifi_string_def)



text \<open>
  C10: when the authentication is \<open>OPEN\<close>, the password handed to the encoder is empty
  whatever stands in the password field, so the credential string has the empty field
  \<open>P:;\<close>.
\<close>

theorem open_network_password_empty:
  "authentication_choice form = ''OPEN'' \<longrightarrow>
     tab2_password form = []
     \<and> (generate_clicked form \<and> ssid_field form \<noteq> [] \<longrightarrow>
          tab2 form =
            [StImage (generate_wifi_qr (ssid_field form) ''OPEN'' [] (hidden_box form)),
             DownloadButton (generate_wifi_qr (ssid_field form) ''OPEN'' [] (hidden_box form))])
     \<and> wifi_string (ssid_field form) (authentication_choice form) (tab2_password form)
          (hidden_box form)
        = ''WIFI:T:OPEN;S:'' @ ssid_field form @ '';P:;H:''
            @ (if hidden_box form then ''true'' else ''false'') @ '';;''
     \<and> sublist ''P:;'' (wifi_string (ssid_field form) (authentication_choice form)
          (tab2_password form) (hidden_box form))"
proof (intro impI conjI)
  assume a: "authentication_choice form = ''OPEN''"
  show p: "tab2_password form = []"
    using a by (simp add: tab2_password_def)
  show "tab2 form =
      [StImage (generate_wifi_qr (ssid_field form) ''OPEN'' [] (hidden_box form)),
       DownloadButton (generate_wifi_qr (ssid_field form) ''OPEN'' [] (hidden_box form))]"
    if "generate_clicked form \<and> ssid_field form \<noteq> []"
    using that a p by (simp add: tab2_def Let_def)
  show w: "wifi_string (ssid_field form) (authentication_choice form) (tab2_password form)
        (hidden_box form)
      = ''WIFI:T:OPEN;S:'' @ ssid_field form @ '';P:;H:''
          @ (if hidden_box form then ''true'' else ''false'') @ '';;''"
    using a p by (simp add: wifi_string_def)
  have "wifi_string (ssid_field form) (authentication_choice form) (tab2_password form)
        (hidden_box form)
      = (''WIFI:T:OPEN;S:'' @ ssid_field form @ '';'') @ ''P:;'' @
          (''H:'' @ (if hidden_box form then ''true'' else ''false'') @ '';;'')"
    unfolding w by simp
  then show "sublist ''P:;'' (wifi_string (ssid_field form) (authentication_choice form)
        (tab2_password form) (hidden_box form))"
    unfolding sublist_def by blast
qed

theorem open_network_password_empty_witness:
  "tab2 \<lparr>ssid_field = ''MyNet'', authentication_choice = ''OPEN'', password_field = ''typed before'',
         hidden_box = False, generate_clicked = True\<rparr>
     = [StImage (QRCode ''WIFI:T:OPEN;S:MyNet;P:;H:false;;''),
        DownloadButton (QRCode ''WIFI:T:OPEN;S:MyNet;P:;H:false;;'')]"
  using open_network_password_empty
    [of "\<lparr>ssid_field = ''MyNet'', authentication_choice = ''OPEN'',
          password_field = ''typed before'', hidden_box = False, generate_clicked = True\<rparr>"]
  by (simp add: generate_wifi_qr_def wifi_string_def)

end
